theory Spec2Isabelle
  imports Main "HOL-Library.Multiset"
begin

section \<open>Data model (backend/database.py)\<close>

text \<open>
  The tables of \<^verbatim>\<open>backend/database.py\<close> as records, one row each. Several tables
  share column names, so each field carries the initial of its table; the two columns of
  \<^verbatim>\<open>FavorabilityTracking\<close> that the manager computes with keep their names.
  A \<^verbatim>\<open>DateTime\<close> value is the number of microseconds since the epoch, in UTC
  (the resolution of Python's \<^verbatim>\<open>datetime\<close>); Python's integers are \<open>int\<close>.
  The columns \<^verbatim>\<open>created_at\<close>, \<^verbatim>\<open>last_active\<close> and \<^verbatim>\<open>last_updated\<close>, which the
  conversation manager never reads in the operations below, and the table
  \<^verbatim>\<open>user_preferences\<close>, which it never touches, are left out.
\<close>

record user =
  u_user_id :: int
  u_username :: string

record character =
  c_character_id :: int
  c_user_id :: int
  c_name :: string
  c_gender :: string
  c_identity :: "string option"
  c_nickname :: "string option"
  c_detail_setting :: "string option"
  c_other_setting :: "string option"

record message =
  m_message_id :: int
  m_user_id :: int
  m_character_id :: int
  m_speaker_name :: string
  m_message_content :: string
  m_timestamp :: int
  m_favorability_level :: int

record favorability_tracking =
  f_tracking_id :: int
  f_user_id :: int
  f_character_id :: int
  current_level :: int
  message_count :: int

text \<open>
  The database session: each table is the list of its rows in insertion order. Every
  \<^verbatim>\<open>db.add\<close> below is followed by \<^verbatim>\<open>db.commit()\<close> in the source, so a write is a new
  database value.
\<close>

record db =
  users :: "user list"
  characters :: "character list"
  messages :: "message list"
  favorability :: "favorability_tracking list"

definition empty_db :: db where
  "empty_db = \<lparr>users = [], characters = [], messages = [], favorability = []\<rparr>"

text \<open>
  An \<^verbatim>\<open>Integer\<close> primary key that the source leaves to the store: one more than the
  largest key of the table, 1 for an empty table.
\<close>

definition next_id :: "int list \<Rightarrow> int" where
  "next_id ids = fold max ids 0 + 1"

text \<open>The exceptions that the modelled code raises, with \<^verbatim>\<open>str(e)\<close>.\<close>

datatype py_exception =
    ValueError string
  | KeyError string
  | JSONDecodeError string
  | IntegrityError string
  | RequestException string

fun str_exception :: "py_exception \<Rightarrow> string" where
  "str_exception (ValueError m) = m"
| "str_exception (KeyError k) = [CHR 0x27] @ k @ [CHR 0x27]"
| "str_exception (JSONDecodeError m) = m"
| "str_exception (IntegrityError m) = m"
| "str_exception (RequestException m) = m"

text \<open>Decimal rendering of an integer, as an f-string does it.\<close>

function str_nat :: "nat \<Rightarrow> string" where
  "str_nat n =
     (if n < 10 then [''0123456789'' ! n]
      else str_nat (n div 10) @ [''0123456789'' ! (n mod 10)])"
  by pat_completeness auto
termination
  by (relation "measure id") auto

declare str_nat.simps [simp del]

definition str_int :: "int \<Rightarrow> string" where
  "str_int i = (if i < 0 then CHR ''-'' # str_nat (nat (- i)) else str_nat (nat i))"

section \<open>ConversationManager (backend/conversation_manager.py)\<close>

subsection \<open>Class constants\<close>

definition LEVEL_1_THRESHOLD :: int where "LEVEL_1_THRESHOLD = 0"
definition LEVEL_2_THRESHOLD :: int where "LEVEL_2_THRESHOLD = 20"
definition LEVEL_3_THRESHOLD :: int where "LEVEL_3_THRESHOLD = 50"
definition MAX_HISTORY_MESSAGES :: int where "MAX_HISTORY_MESSAGES = 100"

subsection \<open>Queries\<close>

text \<open>
  \<^verbatim>\<open>query.filter(...).first()\<close>: the first matching row of the table, \<open>None\<close> when
  there is none.
\<close>

definition get_character :: "db \<Rightarrow> int \<Rightarrow> character option" where
  "get_character d cid = find (\<lambda>c. c_character_id c = cid) (characters d)"

definition get_user :: "db \<Rightarrow> int \<Rightarrow> user option" where
  "get_user d uid = find (\<lambda>u. u_user_id u = uid) (users d)"

definition get_favorability :: "db \<Rightarrow> int \<Rightarrow> favorability_tracking option" where
  "get_favorability d cid = find (\<lambda>f. f_character_id f = cid) (favorability d)"

subsection \<open>Favorability\<close>

text \<open>
  The \<^verbatim>\<open>if/elif/else\<close> chain of \<^verbatim>\<open>update_favorability\<close> that derives the level from the
  (already incremented) message count.
\<close>

definition level_for :: "int \<Rightarrow> int" where
  "level_for c =
     (if c \<ge> LEVEL_3_THRESHOLD then 3
      else if c \<ge> LEVEL_2_THRESHOLD then 2
      else 1)"

text \<open>The in-place update of the row that \<^verbatim>\<open>first()\<close> returned.\<close>

fun update_first :: "('a \<Rightarrow> bool) \<Rightarrow> ('a \<Rightarrow> 'a) \<Rightarrow> 'a list \<Rightarrow> 'a list" where
  "update_first P g [] = []"
| "update_first P g (x # xs) = (if P x then g x # xs else x # update_first P g xs)"

definition update_favorability :: "int \<Rightarrow> db \<Rightarrow> (int \<times> bool) \<times> db" where
  "update_favorability cid d =
     (case get_favorability d cid of
        None \<Rightarrow> ((1, False), d)
      | Some fav \<Rightarrow>
          (let count' = message_count fav + 1;
               old_level = current_level fav;
               new_level = level_for count';
               level_increased = (new_level > old_level);
               d' = d\<lparr>favorability :=
                      update_first (\<lambda>f. f_character_id f = cid)
                        (\<lambda>f. f\<lparr>message_count := count', current_level := new_level\<rparr>)
                        (favorability d)\<rparr>
           in ((new_level, level_increased), d')))"

subsection \<open>Writes\<close>

definition get_or_create_user :: "string \<Rightarrow> db \<Rightarrow> user \<times> db" where
  "get_or_create_user username d =
     (case find (\<lambda>u. u_username u = username) (users d) of
        Some u \<Rightarrow> (u, d)
      | None \<Rightarrow>
          (let u = \<lparr>u_user_id = next_id (map u_user_id (users d)), u_username = username\<rparr>
           in (u, d\<lparr>users := users d @ [u]\<rparr>)))"

text \<open>
  The \<^verbatim>\<open>character_data\<close> dictionary. \<^verbatim>\<open>character_data["name"]\<close> and
  \<^verbatim>\<open>character_data["gender"]\<close> raise \<^verbatim>\<open>KeyError\<close> on a missing key (\<open>None\<close> here); the
  other keys are read with \<^verbatim>\<open>.get\<close>. The value under \<^verbatim>\<open>"other_setting"\<close> is absent, an
  object (given by its JSON text), or a \<^verbatim>\<open>str\<close> together with what \<^verbatim>\<open>json.loads\<close> makes
  of it (\<open>None\<close> when it raises). The JSON column holds the JSON text.
\<close>

datatype other_setting_value =
    SettingAbsent
  | SettingObject string
  | SettingStr string "string option"

record character_data =
  cd_name :: "string option"
  cd_gender :: "string option"
  cd_identity :: "string option"
  cd_nickname :: "string option"
  cd_detail_setting :: "string option"
  cd_other_setting :: other_setting_value

fun other_setting_column :: "other_setting_value \<Rightarrow> py_exception + string option" where
  "other_setting_column SettingAbsent = Inr None"
| "other_setting_column (SettingObject j) = Inr (Some j)"
| "other_setting_column (SettingStr s None) = Inl (JSONDecodeError s)"
| "other_setting_column (SettingStr s (Some j)) = Inr (Some j)"

text \<open>
  \<^verbatim>\<open>save_character\<close> commits the character row, then the tracker row.
  \<^verbatim>\<open>favorability_tracking.character_id\<close> is declared \<^verbatim>\<open>unique=True\<close>: the second commit
  fails when a tracker with the new character's id is already stored.
\<close>

definition save_character :: "int \<Rightarrow> character_data \<Rightarrow> db \<Rightarrow> (py_exception + character) \<times> db" where
  "save_character uid cd d =
     (case cd_name cd of
        None \<Rightarrow> (Inl (KeyError ''name''), d)
      | Some name \<Rightarrow>
     (case cd_gender cd of
        None \<Rightarrow> (Inl (KeyError ''gender''), d)
      | Some gender \<Rightarrow>
     (case other_setting_column (cd_other_setting cd) of
        Inl e \<Rightarrow> (Inl e, d)
      | Inr other \<Rightarrow>
          (let ch = \<lparr>c_character_id = next_id (map c_character_id (characters d)),
                     c_user_id = uid, c_name = name, c_gender = gender,
                     c_identity = cd_identity cd, c_nickname = cd_nickname cd,
                     c_detail_setting = cd_detail_setting cd, c_other_setting = other\<rparr>;
               d1 = d\<lparr>characters := characters d @ [ch]\<rparr>;
               fav = \<lparr>f_tracking_id = next_id (map f_tracking_id (favorability d1)),
                      f_user_id = uid, f_character_id = c_character_id ch,
                      current_level = 1, message_count = 0\<rparr>
           in if get_favorability d1 (c_character_id ch) \<noteq> None
              then (Inl (IntegrityError ''favorability_tracking.character_id''), d1)
              else (Inr ch, d1\<lparr>favorability := favorability d1 @ [fav]\<rparr>)))))"

text \<open>
  \<^verbatim>\<open>save_message\<close>; \<open>now\<close> is the value of \<^verbatim>\<open>datetime.utcnow\<close> that the column default
  of \<^verbatim>\<open>timestamp\<close> takes at the insert.
\<close>

definition save_message ::
  "int \<Rightarrow> int \<Rightarrow> string \<Rightarrow> string \<Rightarrow> int \<Rightarrow> int \<Rightarrow> db \<Rightarrow> message \<times> db" where
  "save_message uid cid speaker content level now d =
     (let m = \<lparr>m_message_id = next_id (map m_message_id (messages d)),
                m_user_id = uid, m_character_id = cid, m_speaker_name = speaker,
                m_message_content = content, m_timestamp = now,
                m_favorability_level = level\<rparr>
      in (m, d\<lparr>messages := messages d @ [m]\<rparr>))"

text \<open>
  \<^verbatim>\<open>delete_character\<close>: the relationships \<^verbatim>\<open>Character.messages\<close> and
  \<^verbatim>\<open>Character.favorability\<close> are declared with \<^verbatim>\<open>cascade="all, delete-orphan"\<close>, so the
  rows that refer to the character go with it.
\<close>

definition delete_character :: "int \<Rightarrow> db \<Rightarrow> bool \<times> db" where
  "delete_character cid d =
     (case get_character d cid of
        None \<Rightarrow> (False, d)
      | Some ch \<Rightarrow>
          (True, d\<lparr>characters := filter (\<lambda>c. c_character_id c \<noteq> cid) (characters d),
                   messages := filter (\<lambda>m. m_character_id m \<noteq> cid) (messages d),
                   favorability := filter (\<lambda>f. f_character_id f \<noteq> cid) (favorability d)\<rparr>))"

subsection \<open>History\<close>

text \<open>
  \<^verbatim>\<open>order_by(Message.timestamp.asc())\<close> is a stable sort of the character's rows: rows
  with equal timestamps stay in insertion order. \<^verbatim>\<open>if limit:\<close> is false for \<^verbatim>\<open>None\<close>
  and for 0. \<^verbatim>\<open>offset(n)\<close> skips the first \<open>n\<close> rows, all of them when \<open>n\<close> exceeds
  their number.
\<close>

definition get_conversation_history :: "db \<Rightarrow> int \<Rightarrow> int option \<Rightarrow> message list" where
  "get_conversation_history d cid limit =
     (let query = sort_key m_timestamp (filter (\<lambda>m. m_character_id m = cid) (messages d))
      in case limit of
           None \<Rightarrow> query
         | Some l \<Rightarrow>
             if l \<noteq> 0 then
               (let total = int (length query)
                in if total > l then drop (nat (total - l)) query else query)
             else query)"

definition format_messages_for_api :: "message list \<Rightarrow> (string \<times> string) list" where
  "format_messages_for_api msgs = map (\<lambda>msg. (m_speaker_name msg, m_message_content msg)) msgs"

subsection \<open>The remote completion call\<close>

text \<open>
  The request that \<^verbatim>\<open>send_message\<close> hands to \<^verbatim>\<open>create_character_chat\<close>: the two
  participant dictionaries (a key that a dictionary lacks is \<open>None\<close>, or the empty
  list for \<^verbatim>\<open>feeling_toward\<close>), the role setting (user name, primary bot name), the
  messages as (name, content) pairs and the token budget. The client either raises or
  returns the decoded JSON body, of which the code reads \<^verbatim>\<open>["data"]["reply"]\<close> and
  \<^verbatim>\<open>["data"].get("usage", {})\<close>; a key that the body lacks is \<open>None\<close>.
\<close>

record participant =
  p_name :: string
  p_gender :: string
  p_identity :: "string option"
  p_nickname :: "string option"
  p_detail_setting :: "string option"
  p_other_setting :: "string option"
  p_feeling_toward :: "(string \<times> int) list"

record api_request =
  q_character_settings :: "participant list"
  q_role_setting :: "string \<times> string"
  q_messages :: "(string \<times> string) list"
  q_max_new_tokens :: int

record api_data =
  d_reply :: "string option"
  d_usage :: "(string \<times> int) list option"

record api_response =
  a_data :: "api_data option"

type_synonym api_client = "api_request \<Rightarrow> py_exception + api_response"

text \<open>The two string literals of the user's stub persona (gender, detail setting), as UTF-8 bytes.\<close>

definition default_gender :: string where
  "default_gender = [CHR 0xE7, CHR 0x94, CHR 0xB7]"

definition user_detail_setting :: string where
  "user_detail_setting = [CHR 0xE7, CHR 0x94, CHR 0xA8, CHR 0xE6, CHR 0x88, CHR 0xB6]"

definition character_settings_list :: "user \<Rightarrow> character \<Rightarrow> int \<Rightarrow> participant list" where
  "character_settings_list usr ch level =
     [\<lparr>p_name = u_username usr, p_gender = default_gender, p_identity = None,
       p_nickname = None, p_detail_setting = Some user_detail_setting,
       p_other_setting = None, p_feeling_toward = []\<rparr>,
      \<lparr>p_name = c_name ch, p_gender = c_gender ch, p_identity = c_identity ch,
       p_nickname = c_nickname ch, p_detail_setting = c_detail_setting ch,
       p_other_setting = c_other_setting ch,
       p_feeling_toward = [(u_username usr, level)]\<rparr>]"

definition chat_request :: "user \<Rightarrow> character \<Rightarrow> int \<Rightarrow> message list \<Rightarrow> api_request" where
  "chat_request usr ch level history =
     \<lparr>q_character_settings = character_settings_list usr ch level,
      q_role_setting = (u_username usr, c_name ch),
      q_messages = format_messages_for_api history,
      q_max_new_tokens = 1024\<rparr>"

subsection \<open>One turn\<close>

text \<open>
  The dictionary that \<^verbatim>\<open>send_message\<close> returns: the success dictionary, or the failure
  dictionary with \<^verbatim>\<open>"error": str(e)\<close> (its \<^verbatim>\<open>error_details\<close>, the text of the traceback,
  is not kept).
\<close>

record turn_success =
  r_reply :: string
  r_favorability_level :: int
  r_level_increased :: bool
  r_message_count :: int
  r_milestone_reached :: bool
  r_milestone_number :: int
  r_anniversary_reached :: bool
  r_anniversary_days :: int
  r_usage :: "(string \<times> int) list"

datatype turn_result = TurnSuccess turn_success | TurnFailure string

text \<open>
  The three readings of the clock in one turn: the insert of the user's message, the
  insert of the reply, and \<^verbatim>\<open>datetime.now(timezone.utc)\<close>.
\<close>

record clock =
  t_inbound :: int
  t_outbound :: int
  t_now :: int

text \<open>
  Both detection loops of \<^verbatim>\<open>send_message\<close>: walk the list, stop at the first entry
  equal to the value; the flag and the number start as \<^verbatim>\<open>False\<close> and 0.
\<close>

fun first_equal :: "int \<Rightarrow> int list \<Rightarrow> bool \<times> int" where
  "first_equal v [] = (False, 0)"
| "first_equal v (x # xs) = (if v = x then (True, x) else first_equal v xs)"

definition milestones :: "int list" where
  "milestones = [50, 100, 200, 500, 1000]"

definition anniversary_milestones :: "int list" where
  "anniversary_milestones = [7, 30, 100, 365]"

text \<open>
  \<^verbatim>\<open>(now - first_date).days\<close>: a \<^verbatim>\<open>timedelta\<close> is normalised so that its seconds and
  microseconds are not negative, which makes \<^verbatim>\<open>days\<close> the floor of the difference in
  days.
\<close>

definition days_since_first :: "int \<Rightarrow> int \<Rightarrow> int" where
  "days_since_first now first_date = (now - first_date) div 86400000000"

definition first_message :: "db \<Rightarrow> int \<Rightarrow> message option" where
  "first_message d cid =
     (case sort_key m_timestamp (filter (\<lambda>m. m_character_id m = cid) (messages d)) of
        [] \<Rightarrow> None
      | m # _ \<Rightarrow> Some m)"

definition send_message ::
  "api_client \<Rightarrow> clock \<Rightarrow> int \<Rightarrow> int \<Rightarrow> string \<Rightarrow> db \<Rightarrow> (py_exception + turn_result) \<times> db" where
  "send_message client clk uid cid user_message d =
     (case get_character d cid of
        None \<Rightarrow> (Inl (ValueError (''Character '' @ str_int cid @ '' not found'')), d)
      | Some ch \<Rightarrow>
     (case get_user d uid of
        None \<Rightarrow> (Inl (ValueError (''User '' @ str_int uid @ '' not found'')), d)
      | Some usr \<Rightarrow>
          (let level = (case get_favorability d cid of Some f \<Rightarrow> current_level f | None \<Rightarrow> 1);
               d1 = snd (save_message uid cid (u_username usr) user_message level (t_inbound clk) d);
               history = get_conversation_history d1 cid (Some MAX_HISTORY_MESSAGES)
           in case client (chat_request usr ch level history) of
                Inl e \<Rightarrow> (Inr (TurnFailure (str_exception e)), d1)
              | Inr response \<Rightarrow>
             (case a_data response of
                None \<Rightarrow> (Inr (TurnFailure (str_exception (KeyError ''data''))), d1)
              | Some dat \<Rightarrow>
             (case d_reply dat of
                None \<Rightarrow> (Inr (TurnFailure (str_exception (KeyError ''reply''))), d1)
              | Some character_reply \<Rightarrow>
                  (let d2 = snd (save_message uid cid (c_name ch) character_reply level
                                  (t_outbound clk) d1);
                       ((new_level, level_increased), d3) = update_favorability cid d2;
                       current_message_count =
                         (case get_favorability d3 cid of
                            Some f \<Rightarrow> message_count f | None \<Rightarrow> 0);
                       (milestone_reached, milestone_number) =
                         first_equal current_message_count milestones;
                       (anniversary_reached, anniversary_days) =
                         (case first_message d3 cid of
                            None \<Rightarrow> (False, 0)
                          | Some fm \<Rightarrow>
                              first_equal (days_since_first (t_now clk) (m_timestamp fm))
                                anniversary_milestones)
                   in (Inr (TurnSuccess
                        \<lparr>r_reply = character_reply,
                         r_favorability_level = new_level,
                         r_level_increased = level_increased,
                         r_message_count = current_message_count,
                         r_milestone_reached = milestone_reached,
                         r_milestone_number = milestone_number,
                         r_anniversary_reached = anniversary_reached,
                         r_anniversary_days = anniversary_days,
                         r_usage = (case d_usage dat of Some u \<Rightarrow> u | None \<Rightarrow> [])\<rparr>),
                       d3)))))))"

subsection \<open>Operations as steps\<close>

text \<open>
  One step is one call of an operation of the manager that can write, with any
  arguments, any behaviour of the remote client and any readings of the clock. A
  reachable state is one that such calls produce from the empty database.
\<close>

inductive step :: "db \<Rightarrow> db \<Rightarrow> bool" where
  step_get_or_create_user: "step d (snd (get_or_create_user username d))"
| step_save_character: "step d (snd (save_character uid cd d))"
| step_save_message: "step d (snd (save_message uid cid speaker content level now d))"
| step_update_favorability: "step d (snd (update_favorability cid d))"
| step_send_message: "step d (snd (send_message client clk uid cid user_message d))"
| step_delete_character: "step d (snd (delete_character cid d))"

definition reachable :: "db \<Rightarrow> bool" where
  "reachable d = rtranclp step empty_db d"

section \<open>Concrete scenarios\<close>

text \<open>
  The user Alice with one character, a tracker at a given level and count, and given
  messages; a client that always replies, one that always raises.
\<close>

definition alice :: user where
  "alice = \<lparr>u_user_id = 1, u_username = ''Alice''\<rparr>"

definition mei :: character where
  "mei = \<lparr>c_character_id = 1, c_user_id = 1, c_name = ''Mei'', c_gender = ''F'',
          c_identity = None, c_nickname = None, c_detail_setting = None,
          c_other_setting = None\<rparr>"

definition mei_data :: character_data where
  "mei_data = \<lparr>cd_name = Some ''Mei'', cd_gender = Some ''F'', cd_identity = None,
               cd_nickname = None, cd_detail_setting = None,
               cd_other_setting = SettingAbsent\<rparr>"

definition tracker_at :: "int \<Rightarrow> int \<Rightarrow> favorability_tracking" where
  "tracker_at lvl n = \<lparr>f_tracking_id = 1, f_user_id = 1, f_character_id = 1,
                       current_level = lvl, message_count = n\<rparr>"

definition scenario_db :: "favorability_tracking list \<Rightarrow> message list \<Rightarrow> db" where
  "scenario_db favs msgs =
     \<lparr>users = [alice], characters = [mei], messages = msgs, favorability = favs\<rparr>"

definition said :: "int \<Rightarrow> string \<Rightarrow> string \<Rightarrow> int \<Rightarrow> int \<Rightarrow> message" where
  "said i speaker content t lvl =
     \<lparr>m_message_id = i, m_user_id = 1, m_character_id = 1, m_speaker_name = speaker,
      m_message_content = content, m_timestamp = t, m_favorability_level = lvl\<rparr>"

definition replying :: "string \<Rightarrow> api_client" where
  "replying r = (\<lambda>q. Inr \<lparr>a_data = Some \<lparr>d_reply = Some r, d_usage = None\<rparr>\<rparr>)"

definition failing :: "string \<Rightarrow> api_client" where
  "failing msg = (\<lambda>q. Inl (RequestException msg))"

definition clock_at :: "int \<Rightarrow> clock" where
  "clock_at t = \<lparr>t_inbound = t, t_outbound = t + 1, t_now = t + 2\<rparr>"

section \<open>The level function\<close>

lemma level_for_cases:
  "level_for c = (if 50 \<le> c then 3 else if 20 \<le> c then 2 else 1)"
  by (simp add: level_for_def LEVEL_3_THRESHOLD_def LEVEL_2_THRESHOLD_def)

lemma level_for_mono: "c \<le> d \<Longrightarrow> level_for c \<le> level_for d"
  by (simp add: level_for_cases)

text \<open>
  Claim C2. For a message count \<open>c \<ge> 0\<close> the derived level is 1 exactly on \<open>[0, 20)\<close>,
  2 exactly on \<open>[20, 50)\<close> and 3 exactly from 50 on; so it is one of 1, 2, 3 and it never
  decreases when the count grows.
\<close>

theorem level_for_tiers:
  assumes "0 \<le> c"
  shows "(level_for c = 1 \<longleftrightarrow> 0 \<le> c \<and> c < 20)
       \<and> (level_for c = 2 \<longleftrightarrow> 20 \<le> c \<and> c < 50)
       \<and> (level_for c = 3 \<longleftrightarrow> 50 \<le> c)
       \<and> level_for c \<in> {1, 2, 3}
       \<and> (\<forall>d. c \<le> d \<longrightarrow> level_for c \<le> level_for d)"
  using assms by (simp add: level_for_cases)

theorem level_for_tiers_witness:
  "(0::int) \<le> 20
   \<and> level_for 20 = 2 \<and> level_for 19 = 1 \<and> level_for 49 = 2 \<and> level_for 50 = 3
   \<and> level_for 20 \<le> level_for 50"
proof -
  have h: "(0::int) \<le> 20" by simp
  from level_for_tiers [OF h] have "level_for 20 = 2" and "level_for 20 \<le> level_for 50"
    by auto
  then show ?thesis by (simp add: level_for_cases)
qed

section \<open>Lookups and list updates\<close>

lemma find_update_first_same:
  assumes "\<And>x. P (g x) = P x"
  shows "find P (update_first P g xs) = map_option g (find P xs)"
  using assms by (induction xs) auto

lemma find_update_first_other:
  assumes "\<And>x. Q (g x) = Q x" and "\<And>x. P x \<Longrightarrow> \<not> Q x"
  shows "find Q (update_first P g xs) = find Q xs"
  using assms by (induction xs) auto

lemma get_favorability_save_message [simp]:
  "get_favorability (snd (save_message uid cid sp txt lvl now d)) c = get_favorability d c"
  by (simp add: save_message_def get_favorability_def Let_def)

lemma first_equal_iff: "fst (first_equal v xs) \<longleftrightarrow> v \<in> set xs"
  by (induction xs) auto

lemma first_equal_value: "snd (first_equal v xs) = (if v \<in> set xs then v else 0)"
  by (induction xs) auto

lemma scenario_lookups [simp]:
  "get_character (scenario_db favs msgs) 1 = Some mei"
  "get_user (scenario_db favs msgs) 1 = Some alice"
  "get_favorability (scenario_db [tracker_at lvl n] msgs) 1 = Some (tracker_at lvl n)"
  "get_favorability (scenario_db [] msgs) c = None"
  by (simp_all add: scenario_db_def get_character_def get_user_def get_favorability_def
      mei_def alice_def tracker_at_def)

section \<open>Advancing the tracker\<close>

lemma update_favorability_existing:
  assumes "get_favorability d cid = Some fav"
  shows "fst (update_favorability cid d)
           = (level_for (message_count fav + 1),
              current_level fav < level_for (message_count fav + 1))
       \<and> get_favorability (snd (update_favorability cid d)) cid
           = Some (fav\<lparr>message_count := message_count fav + 1,
                       current_level := level_for (message_count fav + 1)\<rparr>)
       \<and> (\<forall>c. c \<noteq> cid \<longrightarrow>
             get_favorability (snd (update_favorability cid d)) c = get_favorability d c)
       \<and> users (snd (update_favorability cid d)) = users d
       \<and> characters (snd (update_favorability cid d)) = characters d
       \<and> messages (snd (update_favorability cid d)) = messages d"
proof -
  have same: "find (\<lambda>f. f_character_id f = cid)
          (update_first (\<lambda>f. f_character_id f = cid) g (favorability d))
        = map_option g (find (\<lambda>f. f_character_id f = cid) (favorability d))"
    if "\<And>x. f_character_id (g x) = f_character_id x" for g
    by (rule find_update_first_same) (simp add: that)
  have other: "find (\<lambda>f. f_character_id f = c)
          (update_first (\<lambda>f. f_character_id f = cid) g (favorability d))
        = find (\<lambda>f. f_character_id f = c) (favorability d)"
    if "\<And>x. f_character_id (g x) = f_character_id x" and "c \<noteq> cid" for g c
    by (rule find_update_first_other) (use that in auto)
  from assms show ?thesis
    by (simp add: update_favorability_def Let_def get_favorability_def same other)
qed

text \<open>
  Claim C3. When the character has a tracker, one call of \<^verbatim>\<open>update_favorability\<close> adds
  exactly 1 to its \<^verbatim>\<open>message_count\<close>, stores the level derived from the new count, and
  returns that level with a flag that is true exactly when the new level is above the
  level stored before. Nothing else in the database changes.
\<close>

theorem update_favorability_advances:
  assumes "get_favorability d cid = Some fav"
  shows "fst (update_favorability cid d)
           = (level_for (message_count fav + 1),
              current_level fav < level_for (message_count fav + 1))
       \<and> get_favorability (snd (update_favorability cid d)) cid
           = Some (fav\<lparr>message_count := message_count fav + 1,
                       current_level := level_for (message_count fav + 1)\<rparr>)
       \<and> (\<forall>c. c \<noteq> cid \<longrightarrow>
             get_favorability (snd (update_favorability cid d)) c = get_favorability d c)
       \<and> users (snd (update_favorability cid d)) = users d
       \<and> characters (snd (update_favorability cid d)) = characters d
       \<and> messages (snd (update_favorability cid d)) = messages d"
  using assms by (rule update_favorability_existing)

theorem update_favorability_advances_witness:
  "get_favorability (scenario_db [tracker_at 1 19] []) 1 = Some (tracker_at 1 19)
   \<and> fst (update_favorability 1 (scenario_db [tracker_at 1 19] [])) = (2, True)
   \<and> get_favorability (snd (update_favorability 1 (scenario_db [tracker_at 1 19] []))) 1
       = Some (tracker_at 2 20)"
proof -
  have h: "get_favorability (scenario_db [tracker_at 1 19] []) 1 = Some (tracker_at 1 19)"
    by simp
  have l: "level_for (message_count (tracker_at 1 19) + 1) = 2"
    "current_level (tracker_at 1 19) = 1"
    "(tracker_at 1 19)\<lparr>message_count := message_count (tracker_at 1 19) + 1,
        current_level := 2\<rparr> = tracker_at 2 20"
    by (simp_all add: tracker_at_def level_for_cases)
  from update_favorability_advances [OF h] show ?thesis
    using h by (simp add: l)
qed

section \<open>Failure of the remote call\<close>

text \<open>
  Claim C1. In a turn whose remote call raises, the user's message, stored before the
  call, stays stored; no reply row is written; the tracker table is unchanged (so
  \<^verbatim>\<open>message_count\<close> and \<^verbatim>\<open>current_level\<close> are); and \<^verbatim>\<open>send_message\<close> returns the
  failure dictionary with the text of the exception.
\<close>

theorem send_message_gateway_failure:
  assumes "get_character d cid = Some ch"
    and "get_user d uid = Some usr"
    and "level = (case get_favorability d cid of Some f \<Rightarrow> current_level f | None \<Rightarrow> 1)"
    and "inbound = fst (save_message uid cid (u_username usr) user_message level (t_inbound clk) d)"
    and "client (chat_request usr ch level
           (get_conversation_history (d\<lparr>messages := messages d @ [inbound]\<rparr>) cid
              (Some MAX_HISTORY_MESSAGES))) = Inl e"
  shows "send_message client clk uid cid user_message d
           = (Inr (TurnFailure (str_exception e)), d\<lparr>messages := messages d @ [inbound]\<rparr>)
       \<and> m_speaker_name inbound = u_username usr
       \<and> m_message_content inbound = user_message
       \<and> m_character_id inbound = cid
       \<and> favorability (snd (send_message client clk uid cid user_message d)) = favorability d"
  using assms by (simp add: send_message_def Let_def save_message_def)

theorem send_message_gateway_failure_witness:
  "get_character (scenario_db [tracker_at 1 19] []) 1 = Some mei
   \<and> get_user (scenario_db [tracker_at 1 19] []) 1 = Some alice
   \<and> send_message (failing ''timeout'') (clock_at 10) 1 1 ''hello'' (scenario_db [tracker_at 1 19] [])
       = (Inr (TurnFailure ''timeout''),
          scenario_db [tracker_at 1 19] [said 1 ''Alice'' ''hello'' 10 1])"
proof -
  let ?d = "scenario_db [tracker_at 1 19] []"
  have c: "get_character ?d 1 = Some mei" and u: "get_user ?d 1 = Some alice"
    by simp_all
  have e: "?d\<lparr>messages := messages ?d @
              [fst (save_message 1 1 (u_username alice) ''hello''
                     (case get_favorability ?d 1 of Some f \<Rightarrow> current_level f | None \<Rightarrow> 1)
                     (t_inbound (clock_at 10)) ?d)]\<rparr>
           = scenario_db [tracker_at 1 19] [said 1 ''Alice'' ''hello'' 10 1]"
    by (simp add: save_message_def scenario_db_def said_def clock_at_def tracker_at_def
        alice_def next_id_def get_favorability_def Let_def)
  have f: "failing ''timeout'' q = Inl (RequestException ''timeout'')" for q
    by (simp add: failing_def)
  note r = send_message_gateway_failure
         [where clk = "clock_at 10" and user_message = "''hello''"
            and client = "failing ''timeout''", OF c u refl refl f, THEN conjunct1]
  show ?thesis using c u r [unfolded e] by simp
qed

section \<open>Unknown user or character\<close>

text \<open>
  Claim C7. When the character id or the user id resolves to no row, \<^verbatim>\<open>send_message\<close>
  raises the not-found error (a \<^verbatim>\<open>ValueError\<close> whose text names the missing id; the
  character is looked up first) and the database is the one it was called with: no
  message is stored and no tracker changes.
\<close>

theorem send_message_not_found:
  assumes "get_character d cid = None \<or> get_user d uid = None"
  shows "send_message client clk uid cid user_message d
           = (Inl (ValueError (if get_character d cid = None
                               then ''Character '' @ str_int cid @ '' not found''
                               else ''User '' @ str_int uid @ '' not found'')), d)"
  using assms by (auto simp add: send_message_def split: option.splits)

theorem send_message_not_found_witness:
  "get_character (scenario_db [tracker_at 1 19] []) 7 = None
   \<and> send_message (replying ''hi'') (clock_at 10) 1 7 ''hello'' (scenario_db [tracker_at 1 19] [])
       = (Inl (ValueError ''Character 7 not found''), scenario_db [tracker_at 1 19] [])"
proof -
  have h: "get_character (scenario_db [tracker_at 1 19] []) 7 = None"
    by (simp add: get_character_def scenario_db_def mei_def)
  have s: "str_int 7 = ''7''"
    by (simp add: str_int_def str_nat.simps)
  from send_message_not_found [OF disjI1, OF h] show ?thesis
    using h by (simp add: s)
qed

section \<open>A completed turn\<close>

lemma div_pos_eq: "0 < (b::int) \<longrightarrow> (a div b = k \<longleftrightarrow> k * b \<le> a \<and> a < (k + 1) * b)"
proof
  assume b: "0 < b"
  show "a div b = k \<longleftrightarrow> k * b \<le> a \<and> a < (k + 1) * b"
  proof
    assume k: "a div b = k"
    have "a = b * k + a mod b" using k mult_div_mod_eq [of b a] by simp
    moreover have "0 \<le> a mod b" "a mod b < b" using b by simp_all
    ultimately have "b * k \<le> a" "a < b * k + b" by linarith+
    then show "k * b \<le> a \<and> a < (k + 1) * b"
      by (simp add: algebra_simps)
  next
    assume h: "k * b \<le> a \<and> a < (k + 1) * b"
    have "a = b * k + (a - k * b)" by (simp add: algebra_simps)
    moreover have "0 \<le> a - k * b" using h by simp
    moreover have "a - k * b < b" using h by (simp add: algebra_simps)
    ultimately show "a div b = k" by (rule int_div_pos_eq)
  qed
qed


lemma days_since_first_floor:
  "days_since_first now t = k
     \<longleftrightarrow> k * 86400000000 \<le> now - t \<and> now - t < (k + 1) * 86400000000"
proof -
  have "days_since_first now t = k \<longleftrightarrow> (now - t) div 86400000000 = k"
    by (simp add: days_since_first_def)
  also have "\<dots> \<longleftrightarrow> k * 86400000000 \<le> now - t \<and> now - t < (k + 1) * 86400000000"
    using div_pos_eq [of 86400000000 "now - t" k] by simp
  finally show ?thesis .
qed


lemma send_message_success_shape:
  assumes "send_message client clk uid cid user_message d = (Inr (TurnSuccess s), d')"
  shows "\<exists>(ch :: character) (usr :: user) character_reply level d1 d2.
      get_character d cid = Some ch \<and> get_user d uid = Some usr
    \<and> level = (case get_favorability d cid of Some f \<Rightarrow> current_level f | None \<Rightarrow> 1)
    \<and> d1 = snd (save_message uid cid (u_username usr) user_message level (t_inbound clk) d)
    \<and> d2 = snd (save_message uid cid (c_name ch) character_reply level (t_outbound clk) d1)
    \<and> d' = snd (update_favorability cid d2)
    \<and> r_reply s = character_reply
    \<and> r_favorability_level s = fst (fst (update_favorability cid d2))
    \<and> r_level_increased s = snd (fst (update_favorability cid d2))
    \<and> r_message_count s
           = (case get_favorability d' cid of Some f \<Rightarrow> message_count f | None \<Rightarrow> 0)
    \<and> r_milestone_reached s = fst (first_equal (r_message_count s) milestones)
    \<and> r_milestone_number s = snd (first_equal (r_message_count s) milestones)
    \<and> r_anniversary_reached s =
           fst (case first_message d' cid of None \<Rightarrow> (False, 0)
                | Some fm \<Rightarrow> first_equal (days_since_first (t_now clk) (m_timestamp fm))
                              anniversary_milestones)
    \<and> r_anniversary_days s =
           snd (case first_message d' cid of None \<Rightarrow> (False, 0)
                | Some fm \<Rightarrow> first_equal (days_since_first (t_now clk) (m_timestamp fm))
                              anniversary_milestones)"
  using assms
  by (auto simp add: send_message_def Let_def split: option.splits sum.splits prod.splits)

lemma messages_update_favorability [simp]:
  "messages (snd (update_favorability cid d)) = messages d"
  by (simp add: update_favorability_def Let_def split: option.splits)

lemma messages_save_message [simp]:
  "messages (snd (save_message uid cid sp txt lvl now d))
     = messages d @ [fst (save_message uid cid sp txt lvl now d)]"
  by (simp add: save_message_def Let_def)

lemma save_message_fields [simp]:
  "m_character_id (fst (save_message uid cid sp txt lvl now d)) = cid"
  "m_message_content (fst (save_message uid cid sp txt lvl now d)) = txt"
  "m_speaker_name (fst (save_message uid cid sp txt lvl now d)) = sp"
  "m_timestamp (fst (save_message uid cid sp txt lvl now d)) = now"
  "m_favorability_level (fst (save_message uid cid sp txt lvl now d)) = lvl"
  by (simp_all add: save_message_def Let_def)

lemma first_message_props:
  assumes "first_message d cid = Some fm"
  shows "fm \<in> set (messages d) \<and> m_character_id fm = cid
       \<and> (\<forall>m \<in> set (messages d). m_character_id m = cid \<longrightarrow> m_timestamp fm \<le> m_timestamp m)"
proof -
  let ?xs = "sort_key m_timestamp (filter (\<lambda>m. m_character_id m = cid) (messages d))"
  from assms obtain rest where xs: "?xs = fm # rest"
    by (auto simp add: first_message_def split: list.splits)
  have "sorted (map m_timestamp ?xs)" by simp
  with xs have le: "\<forall>m \<in> set ?xs. m_timestamp fm \<le> m_timestamp m"
    by auto
  have "fm \<in> set ?xs" using xs by simp
  with le show ?thesis by auto
qed

lemma first_message_exists:
  assumes "m \<in> set (messages d)" and "m_character_id m = cid"
  shows "\<exists>fm. first_message d cid = Some fm"
proof -
  let ?xs = "sort_key m_timestamp (filter (\<lambda>m. m_character_id m = cid) (messages d))"
  from assms have "m \<in> set ?xs" by simp
  then have "?xs \<noteq> []" by (metis empty_iff empty_set)
  then show ?thesis
    by (auto simp add: first_message_def split: list.splits)
qed

lemma turn_at_49:
  "send_message (replying ''hi'') (clock_at 10) 1 1 ''hello'' (scenario_db [tracker_at 2 49] [])
       = (Inr (TurnSuccess
            \<lparr>r_reply = ''hi'', r_favorability_level = 3, r_level_increased = True,
             r_message_count = 50, r_milestone_reached = True, r_milestone_number = 50,
             r_anniversary_reached = False, r_anniversary_days = 0, r_usage = []\<rparr>),
          scenario_db [tracker_at 3 50]
            [said 1 ''Alice'' ''hello'' 10 2, said 2 ''Mei'' ''hi'' 11 2])"
  by code_simp

lemma turn_after_a_week:
  "send_message (replying ''hi'') (clock_at 604800000000) 1 1 ''hello''
       (scenario_db [tracker_at 1 0] [said 1 ''Mei'' ''welcome'' 0 1])
       = (Inr (TurnSuccess
            \<lparr>r_reply = ''hi'', r_favorability_level = 1, r_level_increased = False,
             r_message_count = 1, r_milestone_reached = False, r_milestone_number = 0,
             r_anniversary_reached = True, r_anniversary_days = 7, r_usage = []\<rparr>),
          scenario_db [tracker_at 1 1]
            [said 1 ''Mei'' ''welcome'' 0 1, said 2 ''Alice'' ''hello'' 604800000000 1,
             said 3 ''Mei'' ''hi'' 604800000001 1])"
  by code_simp

text \<open>
  Claim C4. On a successful turn the reported count is the tracker's count read after
  the advance (one more than before the turn when the tracker exists); the flag
  \<^verbatim>\<open>milestone_reached\<close> is true exactly when that count is one of 50, 100, 200, 500,
  1000, and \<^verbatim>\<open>milestone_number\<close> is then that count, otherwise 0. So 49, 51, 99 and 101
  do not fire, and neither does a count beyond a milestone.
\<close>

theorem send_message_milestone:
  assumes "send_message client clk uid cid user_message d = (Inr (TurnSuccess s), d')"
  shows "r_message_count s
           = (case get_favorability d' cid of Some f \<Rightarrow> message_count f | None \<Rightarrow> 0)
       \<and> (\<forall>f. get_favorability d cid = Some f \<longrightarrow> r_message_count s = message_count f + 1)
       \<and> (r_milestone_reached s \<longleftrightarrow> r_message_count s \<in> {50, 100, 200, 500, 1000})
       \<and> r_milestone_number s = (if r_milestone_reached s then r_message_count s else 0)"
proof -
  from send_message_success_shape [OF assms]
  obtain ch :: character and usr :: user and character_reply level d1 d2 where
    d1: "d1 = snd (save_message uid cid (u_username usr) user_message level (t_inbound clk) d)"
    and d2: "d2 = snd (save_message uid cid (c_name ch) character_reply level (t_outbound clk) d1)"
    and d': "d' = snd (update_favorability cid d2)"
    and cnt: "r_message_count s
                = (case get_favorability d' cid of Some f \<Rightarrow> message_count f | None \<Rightarrow> 0)"
    and r: "r_milestone_reached s = fst (first_equal (r_message_count s) milestones)"
    and n: "r_milestone_number s = snd (first_equal (r_message_count s) milestones)"
    by (elim exE conjE) (rule that)
  have fav2: "get_favorability d2 c = get_favorability d c" for c
    by (simp add: d2 d1)
  have pre: "r_message_count s = message_count f + 1" if "get_favorability d cid = Some f" for f
  proof -
    from that have "get_favorability d2 cid = Some f" by (simp add: fav2)
    from update_favorability_existing [OF this]
    have "get_favorability d' cid
            = Some (f\<lparr>message_count := message_count f + 1,
                      current_level := level_for (message_count f + 1)\<rparr>)"
      unfolding d' by (rule conjunct2 [THEN conjunct1])
    then show ?thesis by (simp add: cnt)
  qed
  have a: "r_milestone_reached s \<longleftrightarrow> r_message_count s \<in> {50, 100, 200, 500, 1000}"
    unfolding r first_equal_iff by (simp add: milestones_def)
  have b: "r_milestone_number s = (if r_milestone_reached s then r_message_count s else 0)"
    unfolding r n first_equal_iff first_equal_value ..
  from cnt pre a b show ?thesis by (intro conjI allI impI)
qed

theorem send_message_milestone_witness:
  "send_message (replying ''hi'') (clock_at 10) 1 1 ''hello'' (scenario_db [tracker_at 2 49] [])
       = (Inr (TurnSuccess
            \<lparr>r_reply = ''hi'', r_favorability_level = 3, r_level_increased = True,
             r_message_count = 50, r_milestone_reached = True, r_milestone_number = 50,
             r_anniversary_reached = False, r_anniversary_days = 0, r_usage = []\<rparr>),
          scenario_db [tracker_at 3 50]
            [said 1 ''Alice'' ''hello'' 10 2, said 2 ''Mei'' ''hi'' 11 2])
   \<and> (case get_favorability (scenario_db [tracker_at 3 50]
            [said 1 ''Alice'' ''hello'' 10 2, said 2 ''Mei'' ''hi'' 11 2]) 1 of
         Some f \<Rightarrow> message_count f | None \<Rightarrow> 0) = 50"
proof -
  from send_message_milestone [OF turn_at_49]
  have "(case get_favorability (scenario_db [tracker_at 3 50]
            [said 1 ''Alice'' ''hello'' 10 2, said 2 ''Mei'' ''hi'' 11 2]) 1 of
         Some f \<Rightarrow> message_count f | None \<Rightarrow> 0) = 50"
    by simp
  with turn_at_49 show ?thesis by (intro conjI)
qed

text \<open>
  Claim C8. On a successful turn the character has a first message (the earliest
  timestamp among its rows); with the day count being the floor of (now - first
  timestamp) in whole days of 86400 seconds, both in UTC microseconds, the flag
  \<^verbatim>\<open>anniversary_reached\<close> is true exactly when the day count is one of 7, 30, 100, 365,
  and \<^verbatim>\<open>anniversary_days\<close> is then that count, otherwise 0. A day count of 8 does not
  fire.
\<close>

theorem send_message_anniversary:
  assumes "send_message client clk uid cid user_message d = (Inr (TurnSuccess s), d')"
  shows "\<exists>fm. first_message d' cid = Some fm
       \<and> fm \<in> set (messages d') \<and> m_character_id fm = cid
       \<and> (\<forall>m \<in> set (messages d'). m_character_id m = cid \<longrightarrow> m_timestamp fm \<le> m_timestamp m)
       \<and> (r_anniversary_reached s
            \<longleftrightarrow> days_since_first (t_now clk) (m_timestamp fm) \<in> {7, 30, 100, 365})
       \<and> r_anniversary_days s
            = (if r_anniversary_reached s
               then days_since_first (t_now clk) (m_timestamp fm) else 0)
       \<and> (\<forall>k. days_since_first (t_now clk) (m_timestamp fm) = k
              \<longleftrightarrow> k * 86400000000 \<le> t_now clk - m_timestamp fm
                \<and> t_now clk - m_timestamp fm < (k + 1) * 86400000000)"
proof -
  from send_message_success_shape [OF assms]
  obtain ch :: character and usr :: user and character_reply level d1 d2 where
    d1: "d1 = snd (save_message uid cid (u_username usr) user_message level (t_inbound clk) d)"
    and d2: "d2 = snd (save_message uid cid (c_name ch) character_reply level (t_outbound clk) d1)"
    and d': "d' = snd (update_favorability cid d2)"
    and r0: "r_anniversary_reached s =
           fst (case first_message d' cid of None \<Rightarrow> (False, 0)
                | Some fm \<Rightarrow> first_equal (days_since_first (t_now clk) (m_timestamp fm))
                              anniversary_milestones)"
    and n0: "r_anniversary_days s =
           snd (case first_message d' cid of None \<Rightarrow> (False, 0)
                | Some fm \<Rightarrow> first_equal (days_since_first (t_now clk) (m_timestamp fm))
                              anniversary_milestones)"
    by (elim exE conjE) (rule that)
  let ?out = "fst (save_message uid cid (c_name ch) character_reply level (t_outbound clk) d1)"
  have "?out \<in> set (messages d')" and "m_character_id ?out = cid"
    by (simp_all add: d' d2)
  from first_message_exists [OF this] obtain fm where fm: "first_message d' cid = Some fm" ..
  let ?days = "days_since_first (t_now clk) (m_timestamp fm)"
  have r: "r_anniversary_reached s = fst (first_equal ?days anniversary_milestones)"
    and n: "r_anniversary_days s = snd (first_equal ?days anniversary_milestones)"
    by (simp_all add: r0 n0 fm)
  have a: "r_anniversary_reached s \<longleftrightarrow> ?days \<in> {7, 30, 100, 365}"
    unfolding r first_equal_iff by (simp add: anniversary_milestones_def)
  have b: "r_anniversary_days s = (if r_anniversary_reached s then ?days else 0)"
    unfolding r n first_equal_iff first_equal_value ..
  have c: "\<forall>k. ?days = k
              \<longleftrightarrow> k * 86400000000 \<le> t_now clk - m_timestamp fm
                \<and> t_now clk - m_timestamp fm < (k + 1) * 86400000000"
    by (rule allI) (rule days_since_first_floor)
  from first_message_props [OF fm] have p1: "fm \<in> set (messages d')"
    and p2: "m_character_id fm = cid"
    and p3: "\<forall>m \<in> set (messages d'). m_character_id m = cid \<longrightarrow> m_timestamp fm \<le> m_timestamp m"
    by (rule conjunct1, rule conjunct2 [THEN conjunct1], rule conjunct2 [THEN conjunct2])
  from fm p1 p2 p3 a b c show ?thesis
    by (intro exI [of _ fm] conjI)
qed


theorem send_message_anniversary_witness:
  "send_message (replying ''hi'') (clock_at 604800000000) 1 1 ''hello''
       (scenario_db [tracker_at 1 0] [said 1 ''Mei'' ''welcome'' 0 1])
       = (Inr (TurnSuccess
            \<lparr>r_reply = ''hi'', r_favorability_level = 1, r_level_increased = False,
             r_message_count = 1, r_milestone_reached = False, r_milestone_number = 0,
             r_anniversary_reached = True, r_anniversary_days = 7, r_usage = []\<rparr>),
          scenario_db [tracker_at 1 1]
            [said 1 ''Mei'' ''welcome'' 0 1, said 2 ''Alice'' ''hello'' 604800000000 1,
             said 3 ''Mei'' ''hi'' 604800000001 1])
   \<and> first_message (scenario_db [tracker_at 1 1]
            [said 1 ''Mei'' ''welcome'' 0 1, said 2 ''Alice'' ''hello'' 604800000000 1,
             said 3 ''Mei'' ''hi'' 604800000001 1]) 1 = Some (said 1 ''Mei'' ''welcome'' 0 1)
   \<and> days_since_first (t_now (clock_at 604800000000))
         (m_timestamp (said 1 ''Mei'' ''welcome'' 0 1)) = 7"
proof -
  from send_message_anniversary [OF turn_after_a_week]
  obtain fm where
    "first_message (scenario_db [tracker_at 1 1]
            [said 1 ''Mei'' ''welcome'' 0 1, said 2 ''Alice'' ''hello'' 604800000000 1,
             said 3 ''Mei'' ''hi'' 604800000001 1]) 1 = Some fm"
    and "days_since_first (t_now (clock_at 604800000000)) (m_timestamp fm) \<in> {7, 30, 100, 365}"
    by auto
  moreover have "first_message (scenario_db [tracker_at 1 1]
            [said 1 ''Mei'' ''welcome'' 0 1, said 2 ''Alice'' ''hello'' 604800000000 1,
             said 3 ''Mei'' ''hi'' 604800000001 1]) 1 = Some (said 1 ''Mei'' ''welcome'' 0 1)"
    by code_simp
  moreover have "days_since_first (t_now (clock_at 604800000000))
         (m_timestamp (said 1 ''Mei'' ''welcome'' 0 1)) = 7"
    by (simp add: days_since_first_def clock_at_def said_def)
  ultimately show ?thesis using turn_after_a_week by simp
qed

section \<open>A character without a tracker\<close>

lemma turn_without_tracker:
  "send_message (replying ''hi'') (clock_at 10) 1 1 ''hello'' (scenario_db [] [])
       = (Inr (TurnSuccess
            \<lparr>r_reply = ''hi'', r_favorability_level = 1, r_level_increased = False,
             r_message_count = 0, r_milestone_reached = False, r_milestone_number = 0,
             r_anniversary_reached = False, r_anniversary_days = 0, r_usage = []\<rparr>),
          scenario_db []
            [said 1 ''Alice'' ''hello'' 10 1, said 2 ''Mei'' ''hi'' 11 1])"
  by code_simp

text \<open>
  Claim C10. When the character has no tracker, \<^verbatim>\<open>update_favorability\<close> returns
  \<open>(1, False)\<close> and leaves the database as it is. A turn on such a character whose
  remote call returns a reply stores the inbound and the outbound message (both tagged
  with level 1), creates no tracker, and reports level 1, no increase and a message
  count of 0.
\<close>

theorem update_favorability_without_tracker:
  assumes "get_favorability d cid = None"
  shows "update_favorability cid d = ((1, False), d)
       \<and> (get_character d cid = Some ch \<and> get_user d uid = Some usr
          \<and> inbound = fst (save_message uid cid (u_username usr) user_message 1 (t_inbound clk) d)
          \<and> client (chat_request usr ch 1
                (get_conversation_history (d\<lparr>messages := messages d @ [inbound]\<rparr>) cid
                   (Some MAX_HISTORY_MESSAGES)))
              = Inr \<lparr>a_data = Some \<lparr>d_reply = Some character_reply, d_usage = usage\<rparr>\<rparr>
          \<and> outbound = fst (save_message uid cid (c_name ch) character_reply 1 (t_outbound clk)
                             (d\<lparr>messages := messages d @ [inbound]\<rparr>))
          \<longrightarrow> (\<exists>s. send_message client clk uid cid user_message d
                      = (Inr (TurnSuccess s), d\<lparr>messages := messages d @ [inbound, outbound]\<rparr>)
                  \<and> r_reply s = character_reply
                  \<and> r_favorability_level s = 1 \<and> \<not> r_level_increased s
                  \<and> r_message_count s = 0 \<and> \<not> r_milestone_reached s)
              \<and> get_favorability (snd (send_message client clk uid cid user_message d)) cid
                   = None)"
proof -
  have u: "update_favorability cid d' = ((1, False), d')" if "favorability d' = favorability d" for d'
    using assms that by (simp add: update_favorability_def get_favorability_def)
  show ?thesis
    using assms
    by (auto simp add: send_message_def Let_def u save_message_def get_favorability_def
        milestones_def split: prod.splits)
qed

theorem update_favorability_without_tracker_witness:
  "get_favorability (scenario_db [] []) 1 = None
   \<and> update_favorability 1 (scenario_db [] []) = ((1, False), scenario_db [] [])
   \<and> send_message (replying ''hi'') (clock_at 10) 1 1 ''hello'' (scenario_db [] [])
       = (Inr (TurnSuccess
            \<lparr>r_reply = ''hi'', r_favorability_level = 1, r_level_increased = False,
             r_message_count = 0, r_milestone_reached = False, r_milestone_number = 0,
             r_anniversary_reached = False, r_anniversary_days = 0, r_usage = []\<rparr>),
          scenario_db []
            [said 1 ''Alice'' ''hello'' 10 1, said 2 ''Mei'' ''hi'' 11 1])
   \<and> get_favorability (snd (send_message (replying ''hi'') (clock_at 10) 1 1 ''hello''
         (scenario_db [] []))) 1 = None"
proof -
  have h: "get_favorability (scenario_db [] []) 1 = None" by simp
  note t = update_favorability_without_tracker
    [OF h, where uid = 1 and ch = mei and usr = alice and clk = "clock_at 10"
       and user_message = "''hello''" and client = "replying ''hi''"
       and character_reply = "''hi''" and usage = None]
  from t have u: "update_favorability 1 (scenario_db [] []) = ((1, False), scenario_db [] [])"
    by (rule conjunct1)
  have g: "get_favorability (snd (send_message (replying ''hi'') (clock_at 10) 1 1 ''hello''
         (scenario_db [] []))) 1 = None"
    by (simp add: turn_without_tracker)
  from h u turn_without_tracker g show ?thesis by (intro conjI)
qed

section \<open>A turn with empty text\<close>

lemma turn_with_empty_text:
  "send_message (replying ''hi'') (clock_at 10) 1 1 [] (scenario_db [tracker_at 1 0] [])
       = (Inr (TurnSuccess
            \<lparr>r_reply = ''hi'', r_favorability_level = 1, r_level_increased = False,
             r_message_count = 1, r_milestone_reached = False, r_milestone_number = 0,
             r_anniversary_reached = False, r_anniversary_days = 0, r_usage = []\<rparr>),
          scenario_db [tracker_at 1 1]
            [said 1 ''Alice'' [] 10 1, said 2 ''Mei'' ''hi'' 11 1])"
  by code_simp

text \<open>
  Claim C6, as the code has it. \<^verbatim>\<open>send_message\<close> never inspects the text of the user's
  message. A turn with empty text whose user and character resolve raises nothing
  (it returns a result dictionary), and the inbound message with empty content is
  stored as the next message row, before the remote call.
\<close>

theorem send_message_empty_text:
  assumes "get_character d cid = Some ch"
    and "get_user d uid = Some usr"
    and "level = (case get_favorability d cid of Some f \<Rightarrow> current_level f | None \<Rightarrow> 1)"
    and "inbound = fst (save_message uid cid (u_username usr) [] level (t_inbound clk) d)"
  shows "(\<exists>r. fst (send_message client clk uid cid [] d) = Inr r)
       \<and> (\<exists>rest. messages (snd (send_message client clk uid cid [] d))
                    = messages d @ inbound # rest)
       \<and> m_message_content inbound = []"
  using assms
  by (auto simp add: send_message_def Let_def case_prod_beta split: sum.splits option.splits)

theorem send_message_empty_text_witness:
  "get_character (scenario_db [tracker_at 1 0] []) 1 = Some mei
   \<and> get_user (scenario_db [tracker_at 1 0] []) 1 = Some alice
   \<and> fst (save_message 1 1 (u_username alice) [] 1 (t_inbound (clock_at 10))
            (scenario_db [tracker_at 1 0] [])) = said 1 ''Alice'' [] 10 1
   \<and> (\<exists>rest. messages (snd (send_message (failing ''timeout'') (clock_at 10) 1 1 []
                  (scenario_db [tracker_at 1 0] [])))
               = messages (scenario_db [tracker_at 1 0] []) @ said 1 ''Alice'' [] 10 1 # rest)"
proof -
  let ?d = "scenario_db [tracker_at 1 0] []"
  have c: "get_character ?d 1 = Some mei" and u: "get_user ?d 1 = Some alice"
    by simp_all
  have l: "(1::int) = (case get_favorability ?d 1 of Some f \<Rightarrow> current_level f | None \<Rightarrow> 1)"
    unfolding scenario_lookups by (simp add: tracker_at_def)
  have i: "said 1 ''Alice'' [] 10 1
             = fst (save_message 1 1 (u_username alice) [] 1 (t_inbound (clock_at 10)) ?d)"
    by (simp add: save_message_def scenario_db_def said_def clock_at_def alice_def
        next_id_def Let_def)
  from send_message_empty_text [OF c u l i, of "failing ''timeout''"]
  have "\<exists>rest. messages (snd (send_message (failing ''timeout'') (clock_at 10) 1 1 [] ?d))
               = messages ?d @ said 1 ''Alice'' [] 10 1 # rest"
    by (rule conjunct2 [THEN conjunct1])
  with c u i [symmetric] show ?thesis by (intro conjI)
qed

theorem send_message_empty_text_counterexample:
  "send_message (replying ''hi'') (clock_at 10) 1 1 [] (scenario_db [tracker_at 1 0] [])
       = (Inr (TurnSuccess
            \<lparr>r_reply = ''hi'', r_favorability_level = 1, r_level_increased = False,
             r_message_count = 1, r_milestone_reached = False, r_milestone_number = 0,
             r_anniversary_reached = False, r_anniversary_days = 0, r_usage = []\<rparr>),
          scenario_db [tracker_at 1 1]
            [said 1 ''Alice'' [] 10 1, said 2 ''Mei'' ''hi'' 11 1])
   \<and> messages (scenario_db [tracker_at 1 1]
            [said 1 ''Alice'' [] 10 1, said 2 ''Mei'' ''hi'' 11 1])
       \<noteq> messages (scenario_db [tracker_at 1 0] [])
   \<and> get_favorability (scenario_db [tracker_at 1 1]
            [said 1 ''Alice'' [] 10 1, said 2 ''Mei'' ''hi'' 11 1]) 1
       \<noteq> get_favorability (scenario_db [tracker_at 1 0] []) 1"
  using turn_with_empty_text by (simp add: scenario_db_def tracker_at_def get_favorability_def)

section \<open>The history window\<close>

lemma sorted_history: "sorted (map m_timestamp (get_conversation_history d cid limit))"
  by (auto simp add: get_conversation_history_def Let_def drop_map [symmetric]
      split: option.splits)

text \<open>
  Claim C5, as the code has it. The unlimited query returns the character's messages
  (the same rows, as a multiset) in ascending order of timestamp. For a window
  \<open>w \<ge> 1\<close>: when the total is at most \<open>w\<close> the result is that full list; when the total
  exceeds \<open>w\<close> the result is the full list without its first total - \<open>w\<close> rows, so it
  has exactly \<open>w\<close> rows; it is in ascending order of timestamp; for a total of 150 and
  \<open>w = 100\<close> the first 50 rows are dropped. The function only reads: its value is a
  list determined by the database and the arguments.
\<close>

theorem get_conversation_history_window:
  assumes "1 \<le> w"
  shows "mset (get_conversation_history d cid None)
           = mset (filter (\<lambda>m. m_character_id m = cid) (messages d))
       \<and> sorted (map m_timestamp (get_conversation_history d cid None))
       \<and> (int (length (get_conversation_history d cid None)) \<le> w
            \<longrightarrow> get_conversation_history d cid (Some w) = get_conversation_history d cid None)
       \<and> (int (length (get_conversation_history d cid None)) > w
            \<longrightarrow> get_conversation_history d cid (Some w)
                  = drop (length (get_conversation_history d cid None) - nat w)
                      (get_conversation_history d cid None)
                \<and> length (get_conversation_history d cid (Some w)) = nat w)
       \<and> sorted (map m_timestamp (get_conversation_history d cid (Some w)))
       \<and> (length (get_conversation_history d cid None) = 150 \<and> w = 100
            \<longrightarrow> get_conversation_history d cid (Some w)
                  = drop 50 (get_conversation_history d cid None))"
proof -
  have n: "nat (int n - w) = n - nat w" for n
    using assms by linarith
  have a: "mset (get_conversation_history d cid None)
           = mset (filter (\<lambda>m. m_character_id m = cid) (messages d))"
    by (simp add: get_conversation_history_def)
  have b: "int (length (get_conversation_history d cid None)) \<le> w
            \<Longrightarrow> get_conversation_history d cid (Some w) = get_conversation_history d cid None"
    using assms by (simp add: get_conversation_history_def Let_def)
  have c: "get_conversation_history d cid (Some w)
                  = drop (length (get_conversation_history d cid None) - nat w)
                      (get_conversation_history d cid None)"
    if "int (length (get_conversation_history d cid None)) > w"
    using assms that by (simp add: get_conversation_history_def Let_def n)
  have c': "length (get_conversation_history d cid (Some w)) = nat w"
    if "int (length (get_conversation_history d cid None)) > w"
    using assms that unfolding c [OF that] by simp
  have e: "get_conversation_history d cid (Some w) = drop 50 (get_conversation_history d cid None)"
    if "length (get_conversation_history d cid None) = 150" "w = 100"
    using c that by simp
  from a b c c' e sorted_history show ?thesis
    by (intro conjI impI) (simp_all only:)
qed

theorem get_conversation_history_window_witness:
  "(1::int) \<le> 2
   \<and> get_conversation_history
        (scenario_db [] [said 1 ''Mei'' ''c'' 30 1, said 2 ''Alice'' ''a'' 10 1,
                         said 3 ''Mei'' ''b'' 20 1]) 1 None
       = [said 2 ''Alice'' ''a'' 10 1, said 3 ''Mei'' ''b'' 20 1, said 1 ''Mei'' ''c'' 30 1]
   \<and> get_conversation_history
        (scenario_db [] [said 1 ''Mei'' ''c'' 30 1, said 2 ''Alice'' ''a'' 10 1,
                         said 3 ''Mei'' ''b'' 20 1]) 1 (Some 2)
       = [said 3 ''Mei'' ''b'' 20 1, said 1 ''Mei'' ''c'' 30 1]"
proof -
  let ?d = "scenario_db [] [said 1 ''Mei'' ''c'' 30 1, said 2 ''Alice'' ''a'' 10 1,
                            said 3 ''Mei'' ''b'' 20 1]"
  have h: "(1::int) \<le> 2" by simp
  have full: "get_conversation_history ?d 1 None
       = [said 2 ''Alice'' ''a'' 10 1, said 3 ''Mei'' ''b'' 20 1, said 1 ''Mei'' ''c'' 30 1]"
    by code_simp
  from get_conversation_history_window [OF h, of ?d 1]
  have "int (length (get_conversation_history ?d 1 None)) > 2
          \<longrightarrow> get_conversation_history ?d 1 (Some 2)
                = drop (length (get_conversation_history ?d 1 None) - nat 2)
                    (get_conversation_history ?d 1 None)
              \<and> length (get_conversation_history ?d 1 (Some 2)) = nat 2"
    by (rule conjunct2 [THEN conjunct2, THEN conjunct2, THEN conjunct1])
  then have "get_conversation_history ?d 1 (Some 2)
       = [said 3 ''Mei'' ''b'' 20 1, said 1 ''Mei'' ''c'' 30 1]"
    unfolding full by simp
  with h full show ?thesis by (intro conjI)
qed

theorem get_conversation_history_zero_counterexample:
  "int (length (get_conversation_history
          (scenario_db [] [said 1 ''Alice'' ''hello'' 10 1]) 1 None)) > 0
   \<and> get_conversation_history (scenario_db [] [said 1 ''Alice'' ''hello'' 10 1]) 1 (Some 0)
       = [said 1 ''Alice'' ''hello'' 10 1]
   \<and> length (get_conversation_history
          (scenario_db [] [said 1 ''Alice'' ''hello'' 10 1]) 1 (Some 0)) \<noteq> nat 0"
  by (simp add: get_conversation_history_def scenario_db_def said_def)

section \<open>The tracker invariant\<close>

lemma find_distinct_key:
  assumes "distinct (map k xs)" and "x \<in> set xs"
  shows "find (\<lambda>y. k y = k x) xs = Some x"
  using assms by (induction xs) (auto simp add: rev_image_eqI)

lemma find_filter_implied:
  assumes "\<And>x. P x \<Longrightarrow> Q x"
  shows "find P (filter Q xs) = find P xs"
  using assms by (induction xs) auto

lemma find_filter_excluded:
  assumes "\<And>x. P x \<Longrightarrow> \<not> Q x"
  shows "find P (filter Q xs) = None"
  using assms by (induction xs) auto

lemma find_append_Some:
  assumes "find P xs = Some x"
  shows "find P (xs @ ys) = Some x"
  using assms by (induction xs) (auto split: if_splits)

lemma map_key_update_first:
  assumes "\<And>x. k (g x) = k x"
  shows "map k (update_first P g xs) = map k xs"
  using assms by (induction xs) auto

lemma set_update_first:
  assumes "x \<in> set (update_first P g xs)"
  shows "x \<in> set xs \<or> (\<exists>y \<in> set xs. x = g y)"
  using assms by (induction xs) (auto split: if_splits)

lemma favorability_get_or_create_user [simp]:
  "favorability (snd (get_or_create_user username d)) = favorability d"
  by (simp add: get_or_create_user_def Let_def split: option.splits)

lemma favorability_save_message [simp]:
  "favorability (snd (save_message uid cid sp txt lvl now d)) = favorability d"
  by (simp add: save_message_def Let_def)

lemma favorability_update_favorability:
  "favorability (snd (update_favorability cid d))
     = (case get_favorability d cid of
          None \<Rightarrow> favorability d
        | Some fav \<Rightarrow>
            update_first (\<lambda>f. f_character_id f = cid)
              (\<lambda>f. f\<lparr>message_count := message_count fav + 1,
                       current_level := level_for (message_count fav + 1)\<rparr>)
              (favorability d))"
  by (simp add: update_favorability_def Let_def split: option.splits)

lemma favorability_send_message:
  "favorability (snd (send_message client clk uid cid user_message d)) = favorability d
   \<or> favorability (snd (send_message client clk uid cid user_message d))
       = favorability (snd (update_favorability cid d))"
  by (simp add: send_message_def Let_def case_prod_beta favorability_update_favorability
      split: option.splits sum.splits)

lemma favorability_delete_character:
  "favorability (snd (delete_character cid d)) = favorability d
   \<or> favorability (snd (delete_character cid d))
       = filter (\<lambda>f. f_character_id f \<noteq> cid) (favorability d)"
  by (simp add: delete_character_def split: option.splits)

lemma favorability_save_character:
  "favorability (snd (save_character uid cd d)) = favorability d
   \<or> (\<exists>fav. favorability (snd (save_character uid cd d)) = favorability d @ [fav]
            \<and> current_level fav = 1 \<and> message_count fav = 0
            \<and> f_character_id fav \<notin> f_character_id ` set (favorability d))"
  by (auto simp add: save_character_def Let_def get_favorability_def find_None_iff
      split: option.splits sum.splits)

lemma get_favorability_cong:
  "favorability d' = favorability d \<Longrightarrow> get_favorability d' c = get_favorability d c"
  by (simp add: get_favorability_def)

lemma update_favorability_count_mono:
  assumes "get_favorability d c = Some f"
    and "get_favorability (snd (update_favorability cid d)) c = Some f'"
  shows "message_count f \<le> message_count f'"
proof (cases "get_favorability d cid")
  case None
  then have "update_favorability cid d = ((1, False), d)"
    by (simp add: update_favorability_def)
  with assms show ?thesis by simp
next
  case (Some fav)
  note ex = update_favorability_existing [OF Some]
  show ?thesis
  proof (cases "c = cid")
    case True
    with assms Some ex show ?thesis by auto
  next
    case False
    with ex have "get_favorability (snd (update_favorability cid d)) c = get_favorability d c"
      by blast
    with assms show ?thesis by simp
  qed
qed

lemma step_count_mono:
  assumes "step d d'"
    and "get_favorability d c = Some f"
    and "get_favorability d' c = Some f'"
  shows "message_count f \<le> message_count f'"
  using assms
proof (induction rule: step.induct)
  case (step_get_or_create_user d username)
  then show ?case by (simp add: get_favorability_def)
next
  case (step_save_character d uid cd)
  from favorability_save_character [of uid cd d] show ?case
  proof
    assume "favorability (snd (save_character uid cd d)) = favorability d"
    with step_save_character show ?thesis by (simp add: get_favorability_def)
  next
    assume "\<exists>fav. favorability (snd (save_character uid cd d)) = favorability d @ [fav]
            \<and> current_level fav = 1 \<and> message_count fav = 0
            \<and> f_character_id fav \<notin> f_character_id ` set (favorability d)"
    then obtain fav where
      "favorability (snd (save_character uid cd d)) = favorability d @ [fav]" by blast
    with step_save_character show ?thesis
      by (simp add: get_favorability_def find_append_Some)
  qed
next
  case (step_save_message d uid cid speaker content level now)
  then show ?case by simp
next
  case (step_update_favorability d cid)
  then show ?case by (rule update_favorability_count_mono)
next
  case (step_send_message d client clk uid cid user_message)
  from favorability_send_message [of client clk uid cid user_message d] show ?case
  proof
    assume "favorability (snd (send_message client clk uid cid user_message d)) = favorability d"
    with step_send_message show ?thesis by (simp add: get_favorability_def)
  next
    assume "favorability (snd (send_message client clk uid cid user_message d))
       = favorability (snd (update_favorability cid d))"
    then have "get_favorability (snd (send_message client clk uid cid user_message d)) c
       = get_favorability (snd (update_favorability cid d)) c"
      by (rule get_favorability_cong)
    with step_send_message show ?thesis
      by (simp add: update_favorability_count_mono)
  qed
next
  case (step_delete_character d cid)
  from favorability_delete_character [of cid d] show ?case
  proof
    assume "favorability (snd (delete_character cid d)) = favorability d"
    with step_delete_character show ?thesis by (simp add: get_favorability_def)
  next
    assume e: "favorability (snd (delete_character cid d))
       = filter (\<lambda>f. f_character_id f \<noteq> cid) (favorability d)"
    show ?thesis
    proof (cases "c = cid")
      case True
      with e step_delete_character show ?thesis
        by (simp add: get_favorability_def find_filter_excluded)
    next
      case False
      then have "find (\<lambda>f. f_character_id f = c)
                   (filter (\<lambda>f. f_character_id f \<noteq> cid) (favorability d))
                 = find (\<lambda>f. f_character_id f = c) (favorability d)"
        by (intro find_filter_implied) simp
      with e step_delete_character show ?thesis
        by (simp add: get_favorability_def)
    qed
  qed
qed

lemma update_favorability_preserves_consistency:
  assumes "\<forall>f \<in> set (favorability d). current_level f = level_for (message_count f)"
    and "distinct (map f_character_id (favorability d))"
  shows "(\<forall>f \<in> set (favorability (snd (update_favorability cid d))).
            current_level f = level_for (message_count f))
       \<and> distinct (map f_character_id (favorability (snd (update_favorability cid d))))"
proof (cases "get_favorability d cid")
  case None
  with assms show ?thesis
    by (simp add: favorability_update_favorability)
next
  case (Some fav)
  let ?g = "\<lambda>f. f\<lparr>message_count := message_count fav + 1,
                     current_level := level_for (message_count fav + 1)\<rparr>"
  have e: "favorability (snd (update_favorability cid d))
             = update_first (\<lambda>f. f_character_id f = cid) ?g (favorability d)"
    by (simp add: favorability_update_favorability Some)
  have "map f_character_id (update_first (\<lambda>f. f_character_id f = cid) ?g (favorability d))
          = map f_character_id (favorability d)"
    by (rule map_key_update_first) simp
  moreover have "current_level f = level_for (message_count f)"
    if "f \<in> set (update_first (\<lambda>f. f_character_id f = cid) ?g (favorability d))" for f
    using set_update_first [OF that] assms(1) by auto
  ultimately show ?thesis
    using assms(2) by (simp add: e)
qed

lemma step_preserves_consistency:
  assumes "step d d'"
    and "\<forall>f \<in> set (favorability d). current_level f = level_for (message_count f)"
    and "distinct (map f_character_id (favorability d))"
  shows "(\<forall>f \<in> set (favorability d'). current_level f = level_for (message_count f))
       \<and> distinct (map f_character_id (favorability d'))"
  using assms
proof (induction rule: step.induct)
  case (step_get_or_create_user d username)
  then show ?case by simp
next
  case (step_save_character d uid cd)
  from favorability_save_character [of uid cd d] step_save_character show ?case
    by (auto simp add: level_for_cases)
next
  case (step_save_message d uid cid speaker content level now)
  then show ?case by simp
next
  case (step_update_favorability d cid)
  then show ?case by (rule update_favorability_preserves_consistency)
next
  case (step_send_message d client clk uid cid user_message)
  from favorability_send_message [of client clk uid cid user_message d] show ?case
  proof
    assume "favorability (snd (send_message client clk uid cid user_message d)) = favorability d"
    with step_send_message show ?thesis by simp
  next
    assume "favorability (snd (send_message client clk uid cid user_message d))
       = favorability (snd (update_favorability cid d))"
    with update_favorability_preserves_consistency [OF step_send_message, of cid]
    show ?thesis by simp
  qed
next
  case (step_delete_character d cid)
  from favorability_delete_character [of cid d] step_delete_character show ?case
    by (auto simp add: distinct_map_filter)
qed


text \<open>
  Claim C9. In every state that the manager's operations (\<^verbatim>\<open>get_or_create_user\<close>,
  \<^verbatim>\<open>save_character\<close>, \<^verbatim>\<open>save_message\<close>, \<^verbatim>\<open>update_favorability\<close>, \<^verbatim>\<open>send_message\<close>,
  \<^verbatim>\<open>delete_character\<close>) reach from the empty database, every tracker's
  \<^verbatim>\<open>current_level\<close> is the level function of its \<^verbatim>\<open>message_count\<close>, and each character
  has at most one tracker; and across any further operation, a tracker that is there
  before and after has a \<^verbatim>\<open>message_count\<close> that did not decrease.
\<close>

theorem reachable_tracker_invariant:
  assumes "reachable d"
  shows "(\<forall>f \<in> set (favorability d). current_level f = level_for (message_count f))
       \<and> distinct (map f_character_id (favorability d))
       \<and> (\<forall>d'. step d d' \<longrightarrow>
            (\<forall>f \<in> set (favorability d). \<forall>f' \<in> set (favorability d').
               f_character_id f' = f_character_id f \<longrightarrow> message_count f \<le> message_count f'))"
proof -
  from assms have "rtranclp step empty_db d"
    by (simp add: reachable_def)
  then have inv: "(\<forall>f \<in> set (favorability d). current_level f = level_for (message_count f))
       \<and> distinct (map f_character_id (favorability d))"
  proof (induction rule: rtranclp_induct)
    case base
    show ?case by (simp add: empty_db_def)
  next
    case (step y z)
    then show ?case using step_preserves_consistency [of y z] by blast
  qed
  have mono: "message_count f \<le> message_count f'"
    if s: "step d d'" and f: "f \<in> set (favorability d)" and f': "f' \<in> set (favorability d')"
      and k: "f_character_id f' = f_character_id f" for d' f f'
  proof -
    from step_preserves_consistency [OF s] inv
    have dist': "distinct (map f_character_id (favorability d'))" by blast
    from inv have dist: "distinct (map f_character_id (favorability d))" by blast
    have "get_favorability d (f_character_id f) = Some f"
      unfolding get_favorability_def using dist f by (rule find_distinct_key)
    moreover have "get_favorability d' (f_character_id f') = Some f'"
      unfolding get_favorability_def using dist' f' by (rule find_distinct_key)
    ultimately show ?thesis using step_count_mono [OF s, of "f_character_id f" f f'] k
      by simp
  qed
  from inv mono show ?thesis by blast
qed

theorem reachable_tracker_invariant_witness:
  "reachable (scenario_db [tracker_at 1 1] [])
   \<and> step (scenario_db [tracker_at 1 1] []) (scenario_db [tracker_at 1 2] [])
   \<and> current_level (tracker_at 1 1) = level_for (message_count (tracker_at 1 1))
   \<and> message_count (tracker_at 1 1) \<le> message_count (tracker_at 1 2)"
proof -
  let ?d0 = "snd (get_or_create_user ''Alice'' empty_db)"
  have e1: "snd (save_character 1 mei_data ?d0) = scenario_db [tracker_at 1 0] []"
    by code_simp
  have e2: "snd (update_favorability 1 (scenario_db [tracker_at 1 0] []))
              = scenario_db [tracker_at 1 1] []"
    by code_simp
  have e3: "snd (update_favorability 1 (scenario_db [tracker_at 1 1] []))
              = scenario_db [tracker_at 1 2] []"
    by code_simp
  have "step empty_db ?d0" by (rule step_get_or_create_user)
  moreover have "step ?d0 (scenario_db [tracker_at 1 0] [])"
    using step_save_character [of ?d0 1 mei_data] by (simp only: e1)
  moreover have "step (scenario_db [tracker_at 1 0] []) (scenario_db [tracker_at 1 1] [])"
    using step_update_favorability [of "scenario_db [tracker_at 1 0] []" 1] by (simp only: e2)
  ultimately have r: "reachable (scenario_db [tracker_at 1 1] [])"
    unfolding reachable_def by (meson rtranclp.rtrancl_into_rtrancl rtranclp.rtrancl_refl)
  have s: "step (scenario_db [tracker_at 1 1] []) (scenario_db [tracker_at 1 2] [])"
    using step_update_favorability [of "scenario_db [tracker_at 1 1] []" 1] by (simp only: e3)
  have m1: "tracker_at 1 1 \<in> set (favorability (scenario_db [tracker_at 1 1] []))"
    and m2: "tracker_at 1 2 \<in> set (favorability (scenario_db [tracker_at 1 2] []))"
    and k: "f_character_id (tracker_at 1 2) = f_character_id (tracker_at 1 1)"
    by (simp_all add: scenario_db_def tracker_at_def)
  note inv = reachable_tracker_invariant [OF r]
  from inv m1 have a: "current_level (tracker_at 1 1) = level_for (message_count (tracker_at 1 1))"
    by blast
  from inv s m1 m2 k have b: "message_count (tracker_at 1 1) \<le> message_count (tracker_at 1 2)"
    by blast
  from r s a b show ?thesis by (intro conjI)
qed

end
